theory Spec2Isabelle
  imports Main
begin

section \<open>Go values used by the controllers\<close>

text \<open>
  Go's \<open>int\<close> is modelled by HOL's \<open>int\<close>: the controllers never do arithmetic on
  identifiers, they only copy and print them, so no wrap-around can be observed.

  A Go slice is either \<open>nil\<close> or holds a sequence of elements. \<open>None\<close> is the nil slice,
  \<open>Some xs\<close> a non-nil slice with elements \<open>xs\<close> (\<open>Some []\<close> is the empty, non-nil slice
  that decoding the JSON array \<open>[]\<close> produces).
\<close>

type_synonym 'a slice = "'a list option"

text \<open>\<open>for _, x := range s\<close>: the elements visited, in order; none for the nil slice.\<close>

definition go_range :: "'a slice \<Rightarrow> 'a list" where
  "go_range s = (case s of None \<Rightarrow> [] | Some xs \<Rightarrow> xs)"

text \<open>\<open>len(s)\<close>.\<close>

definition go_len :: "'a slice \<Rightarrow> nat" where
  "go_len s = length (go_range s)"

text \<open>\<open>append(s, x)\<close>: always a non-nil slice.\<close>

definition go_append :: "'a slice \<Rightarrow> 'a \<Rightarrow> 'a slice" where
  "go_append s x = Some (go_range s @ [x])"

text \<open>
  A value of type \<open>interface{}\<close>, as far as the controllers handle one: what a JSON
  document decodes to, and the \<open>int\<close> and \<open>string\<close> that \<open>UpdateVLANCustomFields\<close> stores.
\<close>

datatype anyval =
    AnyNil
  | AnyBool bool
  | AnyInt int
  | AnyString string
  | AnyList "anyval list"
  | AnyMap "(string \<times> anyval) list"

text \<open>
  A Go map with string keys is \<open>nil\<close> (\<open>None\<close>) or a table of entries with pairwise
  distinct keys. The entries are kept as a list whose order stands for the order in which
  \<open>range\<close> visits them; Go leaves that order unspecified, and every theorem below holds
  for every order.
\<close>

type_synonym 'v gomap = "(string \<times> 'v) list option"

text \<open>\<open>for k, v := range m\<close>: the entries visited; none for the nil map.\<close>

definition gomap_range :: "'v gomap \<Rightarrow> (string \<times> 'v) list" where
  "gomap_range m = (case m of None \<Rightarrow> [] | Some kvs \<Rightarrow> kvs)"

text \<open>\<open>for k := range m\<close>: the keys visited.\<close>

definition gomap_keys :: "'v gomap \<Rightarrow> string list" where
  "gomap_keys m = map fst (gomap_range m)"

text \<open>
  \<open>m[k] = v\<close> on the entries of a map made with \<open>make\<close>: an existing key keeps its place
  and gets the new value, a new key is added.
\<close>

fun gomap_assign :: "string \<Rightarrow> 'v \<Rightarrow> (string \<times> 'v) list \<Rightarrow> (string \<times> 'v) list" where
  "gomap_assign k v [] = [(k, v)]"
| "gomap_assign k v (p # ps) = (if fst p = k then (k, v) # ps else p # gomap_assign k v ps)"

text \<open>The Go \<open>error\<close> interface: an error carries its message; \<open>nil\<close> is \<open>None\<close>.\<close>

datatype error = Error string

subsection \<open>Formatting integers (\<open>%d\<close> of \<open>fmt.Sprintf\<close>)\<close>

definition digit_char :: "nat \<Rightarrow> char" where
  "digit_char d = ''0123456789'' ! d"

function utoa :: "nat \<Rightarrow> string" where
  "utoa n = (if n < 10 then [digit_char n] else utoa (n div 10) @ [digit_char (n mod 10)])"
  by pat_completeness auto
termination
  by (relation "measure id") auto

declare utoa.simps [simp del]

definition itoa :: "int \<Rightarrow> string" where
  "itoa i = (if i < 0 then CHR ''-'' # utoa (nat (- i)) else utoa (nat i))"

section \<open>Package phpipam: the scalar wrapper types\<close>

text \<open>
  Modelled from the spec: the declarations of \<open>phpipam.JSONIntString\<close> and
  \<open>phpipam.BoolIntString\<close> are not among the sources. The spec's data model says that a
  Normalized Integer holds a native integer internally and a Normalized Boolean a
  boolean; the controllers convert with \<open>int(x)\<close> and \<open>phpipam.JSONIntString(n)\<close>, which
  are \<open>int_of\<close> and the constructor here.
\<close>

datatype JSONIntString = JSONIntString (int_of: int)

datatype BoolIntString = BoolIntString (bool_of: bool)

text \<open>
  Modelled from the spec: the JSON methods of \<open>phpipam.JSONIntString\<close> (its
  \<open>UnmarshalJSON\<close> and \<open>MarshalJSON\<close>) are not among the sources. The spec's contract of
  the Normalized Integer is followed word for word. A raw token is a bare JSON number,
  a JSON string, \<open>null\<close>, or absent (the field was omitted).
\<close>

datatype token = NumberToken int | StringToken string | NullToken | AbsentToken

datatype scalar_error = MalformedScalar

definition digit_val :: "char \<Rightarrow> nat option" where
  "digit_val = map_of [(CHR ''0'', 0), (CHR ''1'', 1), (CHR ''2'', 2), (CHR ''3'', 3),
     (CHR ''4'', 4), (CHR ''5'', 5), (CHR ''6'', 6), (CHR ''7'', 7), (CHR ''8'', 8),
     (CHR ''9'', 9)]"

fun parse_digits :: "nat \<Rightarrow> string \<Rightarrow> nat option" where
  "parse_digits acc [] = Some acc"
| "parse_digits acc (ch # cs) =
     (case digit_val ch of None \<Rightarrow> None | Some d \<Rightarrow> parse_digits (10 * acc + d) cs)"

text \<open>An integer literal: an optional minus sign, then one or more decimal digits.\<close>

definition parse_int :: "string \<Rightarrow> int option" where
  "parse_int s =
     (case s of
        [] \<Rightarrow> None
      | ch # cs \<Rightarrow>
          if ch = CHR ''-''
          then (if cs = [] then None else map_option (\<lambda>n. - int n) (parse_digits 0 cs))
          else map_option int (parse_digits 0 s))"

text \<open>
  Modelled from the spec: \<open>decode\<close> of the Normalized Integer accepts a bare JSON number,
  a JSON string containing an integer literal, or an absent, null or empty token (zero),
  and fails with \<open>MalformedScalar\<close> if the string is non-numeric.
\<close>

definition JSONIntString_decode :: "token \<Rightarrow> scalar_error + JSONIntString" where
  "JSONIntString_decode t =
     (case t of
        NumberToken n \<Rightarrow> Inr (JSONIntString n)
      | StringToken s \<Rightarrow>
          (if s = '''' then Inr (JSONIntString 0)
           else case parse_int s of
                  None \<Rightarrow> Inl MalformedScalar
                | Some n \<Rightarrow> Inr (JSONIntString n))
      | NullToken \<Rightarrow> Inr (JSONIntString 0)
      | AbsentToken \<Rightarrow> Inr (JSONIntString 0))"

text \<open>
  Modelled from the spec: \<open>encode\<close> of the Normalized Integer always emits the value as a
  quoted numeric string, or omits the field entirely if the value is the zero default
  and the field is marked optional.
\<close>

definition JSONIntString_encode :: "bool \<Rightarrow> JSONIntString \<Rightarrow> token" where
  "JSONIntString_encode optional jis =
     (if optional \<and> int_of jis = 0 then AbsentToken else StringToken (itoa (int_of jis)))"

section \<open>Package phpipam/client: the request dispatcher\<close>

text \<open>The request bodies the modelled operations send: \<open>&struct{}{}\<close> and \<open>&params\<close>.\<close>

datatype body = EmptyBody | ParamsBody "(string \<times> anyval) list"

text \<open>
  What an operation asks of its client, in order: a \<open>SendRequest\<close> with method, path and
  body, or a \<open>GetCustomFieldsSchema\<close> for a controller name.
\<close>

datatype call =
    SendRequestCall string string body
  | GetCustomFieldsSchemaCall string

text \<open>
  Modelled from the spec: \<open>client.SendRequest\<close> is not among the sources. By the spec's
  external interface it performs the call and either returns a transport or decode
  error, or decodes the response into the destination. The remote side is a parameter:
  a function from method, path and body to its answer. \<open>Inr v\<close> is a response decoded
  into the destination as \<open>v\<close>. \<open>Inl (e, None)\<close> is the error \<open>e\<close> with the destination
  untouched (the error arose before anything was decoded); \<open>Inl (e, Some v)\<close> is the error
  \<open>e\<close> with the destination left holding \<open>v\<close> (a decode-level error can leave the
  destination partly written). Every call is appended to the log of calls.
\<close>

type_synonym 'a dispatcher = "string \<Rightarrow> string \<Rightarrow> body \<Rightarrow> (error \<times> 'a option) + 'a"

definition SendRequest ::
  "'a dispatcher \<Rightarrow> string \<Rightarrow> string \<Rightarrow> body \<Rightarrow> 'a \<Rightarrow> call list
     \<Rightarrow> (error option \<times> 'a) \<times> call list" where
  "SendRequest c method uri input out calls =
     (case c method uri input of
        Inl (e, left) \<Rightarrow>
          ((Some e, case left of None \<Rightarrow> out | Some v \<Rightarrow> v),
           calls @ [SendRequestCall method uri input])
      | Inr v \<Rightarrow> ((None, v), calls @ [SendRequestCall method uri input]))"

text \<open>
  Modelled from the spec: \<open>client.GetCustomFieldsSchema\<close> is not among the sources. By
  the spec it maps a resource family to a mapping from field name to descriptor, or
  fails with an error; the remote side is again a parameter. The descriptor type
  \<open>phpipam.CustomField\<close> is not among the sources either and stays a type variable.
\<close>

type_synonym 'cf schema_source = "string \<Rightarrow> error + 'cf gomap"

definition GetCustomFieldsSchema ::
  "'cf schema_source \<Rightarrow> string \<Rightarrow> call list \<Rightarrow> ('cf gomap \<times> error option) \<times> call list" where
  "GetCustomFieldsSchema c controller calls =
     (case c controller of
        Inl e \<Rightarrow> ((None, Some e), calls @ [GetCustomFieldsSchemaCall controller])
      | Inr v \<Rightarrow> ((v, None), calls @ [GetCustomFieldsSchemaCall controller]))"

text \<open>A call that changes the remote state: a request with any method but \<open>GET\<close>.\<close>

fun mutating :: "call \<Rightarrow> bool" where
  "mutating (SendRequestCall method uri input) = (method \<noteq> ''GET'')"
| "mutating (GetCustomFieldsSchemaCall controller) = False"

section \<open>Package addresses\<close>

record AddressDTO =
  ID :: JSONIntString
  SubnetID :: JSONIntString
  IPAddress :: string
  IsGateway :: BoolIntString
  Description :: string
  Hostname :: string
  MACAddress :: string
  Owner :: string
  Tag :: JSONIntString
  PTRIgnore :: BoolIntString
  PTRRecordID :: JSONIntString
  DeviceID :: JSONIntString
  Port :: string
  Note :: string
  LastSeen :: string
  ExcludePing :: BoolIntString
  EditDate :: string
  CustomFields :: "anyval gomap"

record Address =
  ID :: int
  SubnetID :: int
  IPAddress :: string
  IsGateway :: BoolIntString
  Description :: string
  Hostname :: string
  MACAddress :: string
  Owner :: string
  Tag :: int
  PTRIgnore :: BoolIntString
  PTRRecordID :: int
  DeviceID :: int
  Port :: string
  Note :: string
  LastSeen :: string
  ExcludePing :: BoolIntString
  EditDate :: string
  CustomFields :: "anyval gomap"

definition zero_AddressDTO :: AddressDTO where
  "zero_AddressDTO =
     \<lparr>AddressDTO.ID = JSONIntString 0,
      AddressDTO.SubnetID = JSONIntString 0,
      AddressDTO.IPAddress = '''',
      AddressDTO.IsGateway = BoolIntString False,
      AddressDTO.Description = '''',
      AddressDTO.Hostname = '''',
      AddressDTO.MACAddress = '''',
      AddressDTO.Owner = '''',
      AddressDTO.Tag = JSONIntString 0,
      AddressDTO.PTRIgnore = BoolIntString False,
      AddressDTO.PTRRecordID = JSONIntString 0,
      AddressDTO.DeviceID = JSONIntString 0,
      AddressDTO.Port = '''',
      AddressDTO.Note = '''',
      AddressDTO.LastSeen = '''',
      AddressDTO.ExcludePing = BoolIntString False,
      AddressDTO.EditDate = '''',
      AddressDTO.CustomFields = None\<rparr>"

definition zero_Address :: Address where
  "zero_Address =
     \<lparr>Address.ID = 0,
      Address.SubnetID = 0,
      Address.IPAddress = '''',
      Address.IsGateway = BoolIntString False,
      Address.Description = '''',
      Address.Hostname = '''',
      Address.MACAddress = '''',
      Address.Owner = '''',
      Address.Tag = 0,
      Address.PTRIgnore = BoolIntString False,
      Address.PTRRecordID = 0,
      Address.DeviceID = 0,
      Address.Port = '''',
      Address.Note = '''',
      Address.LastSeen = '''',
      Address.ExcludePing = BoolIntString False,
      Address.EditDate = '''',
      Address.CustomFields = None\<rparr>"

text \<open>\<open>func (a *Address) FromDTO(dto *AddressDTO)\<close>: assigns every field of \<open>a\<close>.\<close>

definition Address_FromDTO :: "Address \<Rightarrow> AddressDTO \<Rightarrow> Address" where
  "Address_FromDTO a dto =
     a\<lparr>Address.ID := int_of (AddressDTO.ID dto),
       Address.SubnetID := int_of (AddressDTO.SubnetID dto),
       Address.IPAddress := AddressDTO.IPAddress dto,
       Address.IsGateway := AddressDTO.IsGateway dto,
       Address.Description := AddressDTO.Description dto,
       Address.Hostname := AddressDTO.Hostname dto,
       Address.MACAddress := AddressDTO.MACAddress dto,
       Address.Owner := AddressDTO.Owner dto,
       Address.Tag := int_of (AddressDTO.Tag dto),
       Address.PTRIgnore := AddressDTO.PTRIgnore dto,
       Address.PTRRecordID := int_of (AddressDTO.PTRRecordID dto),
       Address.DeviceID := int_of (AddressDTO.DeviceID dto),
       Address.Port := AddressDTO.Port dto,
       Address.Note := AddressDTO.Note dto,
       Address.LastSeen := AddressDTO.LastSeen dto,
       Address.ExcludePing := AddressDTO.ExcludePing dto,
       Address.EditDate := AddressDTO.EditDate dto,
       Address.CustomFields := AddressDTO.CustomFields dto\<rparr>"

text \<open>\<open>func (a *Address) ToDTO()\<close>.\<close>

definition Address_ToDTO :: "Address \<Rightarrow> AddressDTO" where
  "Address_ToDTO a =
     \<lparr>AddressDTO.ID = JSONIntString (Address.ID a),
      AddressDTO.SubnetID = JSONIntString (Address.SubnetID a),
      AddressDTO.IPAddress = Address.IPAddress a,
      AddressDTO.IsGateway = Address.IsGateway a,
      AddressDTO.Description = Address.Description a,
      AddressDTO.Hostname = Address.Hostname a,
      AddressDTO.MACAddress = Address.MACAddress a,
      AddressDTO.Owner = Address.Owner a,
      AddressDTO.Tag = JSONIntString (Address.Tag a),
      AddressDTO.PTRIgnore = Address.PTRIgnore a,
      AddressDTO.PTRRecordID = JSONIntString (Address.PTRRecordID a),
      AddressDTO.DeviceID = JSONIntString (Address.DeviceID a),
      AddressDTO.Port = Address.Port a,
      AddressDTO.Note = Address.Note a,
      AddressDTO.LastSeen = Address.LastSeen a,
      AddressDTO.ExcludePing = Address.ExcludePing a,
      AddressDTO.EditDate = Address.EditDate a,
      AddressDTO.CustomFields = Address.CustomFields a\<rparr>"

text \<open>\<open>GetAddressByID\<close>: one wire record is decoded and converted.\<close>

definition GetAddressByID ::
  "AddressDTO dispatcher \<Rightarrow> int \<Rightarrow> call list \<Rightarrow> (Address \<times> error option) \<times> call list" where
  "GetAddressByID c id' calls =
     (let out = zero_Address;
          dto = zero_AddressDTO;
          ((err, dto), calls) =
             SendRequest c ''GET'' (''/addresses/'' @ itoa id' @ ''/'') EmptyBody dto calls;
          out = Address_FromDTO out dto
      in ((out, err), calls))"

text \<open>\<open>GetAddressesByIP\<close>: a slice of wire records is decoded, each converted and appended.\<close>

definition GetAddressesByIP ::
  "AddressDTO slice dispatcher \<Rightarrow> string \<Rightarrow> call list
     \<Rightarrow> (Address slice \<times> error option) \<times> call list" where
  "GetAddressesByIP c ipaddr calls =
     (let out = None;
          dtos = None;
          ((err, dtos), calls) =
             SendRequest c ''GET'' (''/addresses/search/'' @ ipaddr @ ''/'') EmptyBody dtos calls;
          out = foldl (\<lambda>out dto. go_append out (Address_FromDTO zero_Address dto))
                  out (go_range dtos)
      in ((out, err), calls))"

definition GetAddressesByIpInSubnet ::
  "AddressDTO dispatcher \<Rightarrow> string \<Rightarrow> int \<Rightarrow> call list
     \<Rightarrow> (Address \<times> error option) \<times> call list" where
  "GetAddressesByIpInSubnet c ipaddr subnetID calls =
     (let out = zero_Address;
          dto = zero_AddressDTO;
          ((err, dto), calls) =
             SendRequest c ''GET'' (''/addresses/'' @ ipaddr @ ''/'' @ itoa subnetID)
               EmptyBody dto calls;
          out = Address_FromDTO out dto
      in ((out, err), calls))"

section \<open>Package subnets\<close>

record SubnetDTO =
  ID :: JSONIntString
  SubnetAddress :: string
  Mask :: JSONIntString
  Description :: string
  SectionID :: JSONIntString
  LinkedSubnet :: JSONIntString
  VLANID :: JSONIntString
  VRFID :: JSONIntString
  MasterSubnetID :: JSONIntString
  NameserverID :: JSONIntString
  Nameservers :: "anyval gomap"
  ShowName :: BoolIntString
  Permissions :: string
  DNSRecursive :: BoolIntString
  DNSRecords :: BoolIntString
  AllowRequests :: BoolIntString
  ScanAgent :: JSONIntString
  PingSubnet :: BoolIntString
  DiscoverSubnet :: BoolIntString
  IsFolder :: BoolIntString
  IsPool :: BoolIntString
  IsFull :: BoolIntString
  Threshold :: JSONIntString
  Location :: JSONIntString
  EditDate :: string
  Gateway :: "anyval gomap"
  GatewayID :: string
  CustomFields :: "anyval gomap"
  ResolveDNS :: BoolIntString

record Subnet =
  ID :: int
  SubnetAddress :: string
  Mask :: JSONIntString
  Description :: string
  SectionID :: int
  LinkedSubnet :: int
  VLANID :: int
  VRFID :: int
  MasterSubnetID :: int
  NameserverID :: int
  Nameservers :: "anyval gomap"
  ShowName :: BoolIntString
  Permissions :: string
  DNSRecursive :: BoolIntString
  DNSRecords :: BoolIntString
  AllowRequests :: BoolIntString
  ScanAgent :: int
  PingSubnet :: BoolIntString
  DiscoverSubnet :: BoolIntString
  IsFolder :: BoolIntString
  IsPool :: BoolIntString
  IsFull :: BoolIntString
  Threshold :: int
  Location :: int
  EditDate :: string
  Gateway :: "anyval gomap"
  GatewayID :: string
  CustomFields :: "anyval gomap"
  ResolveDNS :: BoolIntString

definition zero_SubnetDTO :: SubnetDTO where
  "zero_SubnetDTO =
     \<lparr>SubnetDTO.ID = JSONIntString 0,
      SubnetDTO.SubnetAddress = '''',
      SubnetDTO.Mask = JSONIntString 0,
      SubnetDTO.Description = '''',
      SubnetDTO.SectionID = JSONIntString 0,
      SubnetDTO.LinkedSubnet = JSONIntString 0,
      SubnetDTO.VLANID = JSONIntString 0,
      SubnetDTO.VRFID = JSONIntString 0,
      SubnetDTO.MasterSubnetID = JSONIntString 0,
      SubnetDTO.NameserverID = JSONIntString 0,
      SubnetDTO.Nameservers = None,
      SubnetDTO.ShowName = BoolIntString False,
      SubnetDTO.Permissions = '''',
      SubnetDTO.DNSRecursive = BoolIntString False,
      SubnetDTO.DNSRecords = BoolIntString False,
      SubnetDTO.AllowRequests = BoolIntString False,
      SubnetDTO.ScanAgent = JSONIntString 0,
      SubnetDTO.PingSubnet = BoolIntString False,
      SubnetDTO.DiscoverSubnet = BoolIntString False,
      SubnetDTO.IsFolder = BoolIntString False,
      SubnetDTO.IsPool = BoolIntString False,
      SubnetDTO.IsFull = BoolIntString False,
      SubnetDTO.Threshold = JSONIntString 0,
      SubnetDTO.Location = JSONIntString 0,
      SubnetDTO.EditDate = '''',
      SubnetDTO.Gateway = None,
      SubnetDTO.GatewayID = '''',
      SubnetDTO.CustomFields = None,
      SubnetDTO.ResolveDNS = BoolIntString False\<rparr>"

definition zero_Subnet :: Subnet where
  "zero_Subnet =
     \<lparr>Subnet.ID = 0,
      Subnet.SubnetAddress = '''',
      Subnet.Mask = JSONIntString 0,
      Subnet.Description = '''',
      Subnet.SectionID = 0,
      Subnet.LinkedSubnet = 0,
      Subnet.VLANID = 0,
      Subnet.VRFID = 0,
      Subnet.MasterSubnetID = 0,
      Subnet.NameserverID = 0,
      Subnet.Nameservers = None,
      Subnet.ShowName = BoolIntString False,
      Subnet.Permissions = '''',
      Subnet.DNSRecursive = BoolIntString False,
      Subnet.DNSRecords = BoolIntString False,
      Subnet.AllowRequests = BoolIntString False,
      Subnet.ScanAgent = 0,
      Subnet.PingSubnet = BoolIntString False,
      Subnet.DiscoverSubnet = BoolIntString False,
      Subnet.IsFolder = BoolIntString False,
      Subnet.IsPool = BoolIntString False,
      Subnet.IsFull = BoolIntString False,
      Subnet.Threshold = 0,
      Subnet.Location = 0,
      Subnet.EditDate = '''',
      Subnet.Gateway = None,
      Subnet.GatewayID = '''',
      Subnet.CustomFields = None,
      Subnet.ResolveDNS = BoolIntString False\<rparr>"

text \<open>\<open>func (s *Subnet) FromDTO(subnetDTO *SubnetDTO)\<close>: assigns every field of \<open>s\<close>.\<close>

definition Subnet_FromDTO :: "Subnet \<Rightarrow> SubnetDTO \<Rightarrow> Subnet" where
  "Subnet_FromDTO s subnetDTO =
     s\<lparr>Subnet.ID := int_of (SubnetDTO.ID subnetDTO),
       Subnet.SubnetAddress := SubnetDTO.SubnetAddress subnetDTO,
       Subnet.Mask := SubnetDTO.Mask subnetDTO,
       Subnet.Description := SubnetDTO.Description subnetDTO,
       Subnet.SectionID := int_of (SubnetDTO.SectionID subnetDTO),
       Subnet.LinkedSubnet := int_of (SubnetDTO.LinkedSubnet subnetDTO),
       Subnet.VLANID := int_of (SubnetDTO.VLANID subnetDTO),
       Subnet.VRFID := int_of (SubnetDTO.VRFID subnetDTO),
       Subnet.MasterSubnetID := int_of (SubnetDTO.MasterSubnetID subnetDTO),
       Subnet.NameserverID := int_of (SubnetDTO.NameserverID subnetDTO),
       Subnet.Nameservers := SubnetDTO.Nameservers subnetDTO,
       Subnet.ShowName := SubnetDTO.ShowName subnetDTO,
       Subnet.Permissions := SubnetDTO.Permissions subnetDTO,
       Subnet.DNSRecursive := SubnetDTO.DNSRecursive subnetDTO,
       Subnet.DNSRecords := SubnetDTO.DNSRecords subnetDTO,
       Subnet.AllowRequests := SubnetDTO.AllowRequests subnetDTO,
       Subnet.ScanAgent := int_of (SubnetDTO.ScanAgent subnetDTO),
       Subnet.PingSubnet := SubnetDTO.PingSubnet subnetDTO,
       Subnet.DiscoverSubnet := SubnetDTO.DiscoverSubnet subnetDTO,
       Subnet.IsFolder := SubnetDTO.IsFolder subnetDTO,
       Subnet.IsPool := SubnetDTO.IsPool subnetDTO,
       Subnet.IsFull := SubnetDTO.IsFull subnetDTO,
       Subnet.Threshold := int_of (SubnetDTO.Threshold subnetDTO),
       Subnet.Location := int_of (SubnetDTO.Location subnetDTO),
       Subnet.EditDate := SubnetDTO.EditDate subnetDTO,
       Subnet.Gateway := SubnetDTO.Gateway subnetDTO,
       Subnet.GatewayID := SubnetDTO.GatewayID subnetDTO,
       Subnet.CustomFields := SubnetDTO.CustomFields subnetDTO,
       Subnet.ResolveDNS := SubnetDTO.ResolveDNS subnetDTO\<rparr>"

text \<open>\<open>func (s *Subnet) ToDTO()\<close>.\<close>

definition Subnet_ToDTO :: "Subnet \<Rightarrow> SubnetDTO" where
  "Subnet_ToDTO s =
     \<lparr>SubnetDTO.ID = JSONIntString (Subnet.ID s),
      SubnetDTO.SubnetAddress = Subnet.SubnetAddress s,
      SubnetDTO.Mask = Subnet.Mask s,
      SubnetDTO.Description = Subnet.Description s,
      SubnetDTO.SectionID = JSONIntString (Subnet.SectionID s),
      SubnetDTO.LinkedSubnet = JSONIntString (Subnet.LinkedSubnet s),
      SubnetDTO.VLANID = JSONIntString (Subnet.VLANID s),
      SubnetDTO.VRFID = JSONIntString (Subnet.VRFID s),
      SubnetDTO.MasterSubnetID = JSONIntString (Subnet.MasterSubnetID s),
      SubnetDTO.NameserverID = JSONIntString (Subnet.NameserverID s),
      SubnetDTO.Nameservers = Subnet.Nameservers s,
      SubnetDTO.ShowName = Subnet.ShowName s,
      SubnetDTO.Permissions = Subnet.Permissions s,
      SubnetDTO.DNSRecursive = Subnet.DNSRecursive s,
      SubnetDTO.DNSRecords = Subnet.DNSRecords s,
      SubnetDTO.AllowRequests = Subnet.AllowRequests s,
      SubnetDTO.ScanAgent = JSONIntString (Subnet.ScanAgent s),
      SubnetDTO.PingSubnet = Subnet.PingSubnet s,
      SubnetDTO.DiscoverSubnet = Subnet.DiscoverSubnet s,
      SubnetDTO.IsFolder = Subnet.IsFolder s,
      SubnetDTO.IsPool = Subnet.IsPool s,
      SubnetDTO.IsFull = Subnet.IsFull s,
      SubnetDTO.Threshold = JSONIntString (Subnet.Threshold s),
      SubnetDTO.Location = JSONIntString (Subnet.Location s),
      SubnetDTO.EditDate = Subnet.EditDate s,
      SubnetDTO.Gateway = Subnet.Gateway s,
      SubnetDTO.GatewayID = Subnet.GatewayID s,
      SubnetDTO.CustomFields = Subnet.CustomFields s,
      SubnetDTO.ResolveDNS = Subnet.ResolveDNS s\<rparr>"

definition GetSubnetByID ::
  "SubnetDTO dispatcher \<Rightarrow> int \<Rightarrow> call list \<Rightarrow> (Subnet \<times> error option) \<times> call list" where
  "GetSubnetByID c id' calls =
     (let out = zero_Subnet;
          dto = zero_SubnetDTO;
          ((err, dto), calls) =
             SendRequest c ''GET'' (''/subnets/'' @ itoa id' @ ''/'') EmptyBody dto calls;
          out = Subnet_FromDTO out dto
      in ((out, err), calls))"

definition GetSubnetsByCIDR ::
  "SubnetDTO slice dispatcher \<Rightarrow> string \<Rightarrow> call list
     \<Rightarrow> (Subnet slice \<times> error option) \<times> call list" where
  "GetSubnetsByCIDR c cidr calls =
     (let out = None;
          dtos = None;
          ((err, dtos), calls) =
             SendRequest c ''GET'' (''/subnets/cidr/'' @ cidr @ ''/'') EmptyBody dtos calls;
          out = foldl (\<lambda>out dto. go_append out (Subnet_FromDTO zero_Subnet dto))
                  out (go_range dtos)
      in ((out, err), calls))"

definition GetSubnetsByCIDRAndSection ::
  "SubnetDTO slice dispatcher \<Rightarrow> string \<Rightarrow> int \<Rightarrow> call list
     \<Rightarrow> (Subnet slice \<times> error option) \<times> call list" where
  "GetSubnetsByCIDRAndSection c cidr section_id calls =
     (let out = None;
          dtos = None;
          ((err, dtos), calls) =
             SendRequest c ''GET''
               (''/subnets/cidr/'' @ cidr @ ''/?filter_by=sectionId&filter_value='' @ itoa section_id)
               EmptyBody dtos calls;
          out = foldl (\<lambda>out dto. go_append out (Subnet_FromDTO zero_Subnet dto))
                  out (go_range dtos)
      in ((out, err), calls))"

definition GetAddressesInSubnet ::
  "AddressDTO slice dispatcher \<Rightarrow> int \<Rightarrow> call list
     \<Rightarrow> (Address slice \<times> error option) \<times> call list" where
  "GetAddressesInSubnet c id' calls =
     (let out = None;
          dtos = None;
          ((err, dtos), calls) =
             SendRequest c ''GET'' (''/subnets/'' @ itoa id' @ ''/addresses/'') EmptyBody dtos calls;
          out = foldl (\<lambda>out dto. go_append out (Address_FromDTO zero_Address dto))
                  out (go_range dtos)
      in ((out, err), calls))"

section \<open>Package sections\<close>

record SectionDTO =
  ID :: JSONIntString
  Name :: string
  Description :: string
  MasterSection :: JSONIntString
  Permissions :: string
  StrictMode :: BoolIntString
  SubnetOrdering :: string
  Order :: JSONIntString
  EditDate :: string
  ShowVLAN :: BoolIntString
  ShowVRF :: BoolIntString
  ShowSupernetOnly :: BoolIntString
  DNS :: JSONIntString

record Section =
  ID :: int
  Name :: string
  Description :: string
  MasterSection :: int
  Permissions :: string
  StrictMode :: BoolIntString
  SubnetOrdering :: string
  Order :: int
  EditDate :: string
  ShowVLAN :: BoolIntString
  ShowVRF :: BoolIntString
  ShowSupernetOnly :: BoolIntString
  DNS :: int

definition zero_SectionDTO :: SectionDTO where
  "zero_SectionDTO =
     \<lparr>SectionDTO.ID = JSONIntString 0,
      SectionDTO.Name = '''',
      SectionDTO.Description = '''',
      SectionDTO.MasterSection = JSONIntString 0,
      SectionDTO.Permissions = '''',
      SectionDTO.StrictMode = BoolIntString False,
      SectionDTO.SubnetOrdering = '''',
      SectionDTO.Order = JSONIntString 0,
      SectionDTO.EditDate = '''',
      SectionDTO.ShowVLAN = BoolIntString False,
      SectionDTO.ShowVRF = BoolIntString False,
      SectionDTO.ShowSupernetOnly = BoolIntString False,
      SectionDTO.DNS = JSONIntString 0\<rparr>"

definition zero_Section :: Section where
  "zero_Section =
     \<lparr>Section.ID = 0,
      Section.Name = '''',
      Section.Description = '''',
      Section.MasterSection = 0,
      Section.Permissions = '''',
      Section.StrictMode = BoolIntString False,
      Section.SubnetOrdering = '''',
      Section.Order = 0,
      Section.EditDate = '''',
      Section.ShowVLAN = BoolIntString False,
      Section.ShowVRF = BoolIntString False,
      Section.ShowSupernetOnly = BoolIntString False,
      Section.DNS = 0\<rparr>"

text \<open>\<open>func (s *Section) FromDTO(sectionDTO *SectionDTO)\<close>: assigns every field of \<open>s\<close>.\<close>

definition Section_FromDTO :: "Section \<Rightarrow> SectionDTO \<Rightarrow> Section" where
  "Section_FromDTO s sectionDTO =
     s\<lparr>Section.ID := int_of (SectionDTO.ID sectionDTO),
       Section.Name := SectionDTO.Name sectionDTO,
       Section.Description := SectionDTO.Description sectionDTO,
       Section.MasterSection := int_of (SectionDTO.MasterSection sectionDTO),
       Section.Permissions := SectionDTO.Permissions sectionDTO,
       Section.StrictMode := SectionDTO.StrictMode sectionDTO,
       Section.SubnetOrdering := SectionDTO.SubnetOrdering sectionDTO,
       Section.Order := int_of (SectionDTO.Order sectionDTO),
       Section.EditDate := SectionDTO.EditDate sectionDTO,
       Section.ShowVLAN := SectionDTO.ShowVLAN sectionDTO,
       Section.ShowVRF := SectionDTO.ShowVRF sectionDTO,
       Section.ShowSupernetOnly := SectionDTO.ShowSupernetOnly sectionDTO,
       Section.DNS := int_of (SectionDTO.DNS sectionDTO)\<rparr>"

text \<open>\<open>func (s *Section) ToDTO()\<close>.\<close>

definition Section_ToDTO :: "Section \<Rightarrow> SectionDTO" where
  "Section_ToDTO s =
     \<lparr>SectionDTO.ID = JSONIntString (Section.ID s),
      SectionDTO.Name = Section.Name s,
      SectionDTO.Description = Section.Description s,
      SectionDTO.MasterSection = JSONIntString (Section.MasterSection s),
      SectionDTO.Permissions = Section.Permissions s,
      SectionDTO.StrictMode = Section.StrictMode s,
      SectionDTO.SubnetOrdering = Section.SubnetOrdering s,
      SectionDTO.Order = JSONIntString (Section.Order s),
      SectionDTO.EditDate = Section.EditDate s,
      SectionDTO.ShowVLAN = Section.ShowVLAN s,
      SectionDTO.ShowVRF = Section.ShowVRF s,
      SectionDTO.ShowSupernetOnly = Section.ShowSupernetOnly s,
      SectionDTO.DNS = JSONIntString (Section.DNS s)\<rparr>"

text \<open>\<open>ListSections\<close>: decode a slice of wire records, convert and append each.\<close>

definition ListSections ::
  "SectionDTO slice dispatcher \<Rightarrow> call list \<Rightarrow> (Section slice \<times> error option) \<times> call list" where
  "ListSections c calls =
     (let out = None;
          dto = None;
          ((err, dto), calls) = SendRequest c ''GET'' ''/sections/'' EmptyBody dto calls;
          out = foldl (\<lambda>out sectionDTO. go_append out (Section_FromDTO zero_Section sectionDTO))
                  out (go_range dto)
      in ((out, err), calls))"

definition GetSectionByID ::
  "SectionDTO dispatcher \<Rightarrow> int \<Rightarrow> call list \<Rightarrow> (Section \<times> error option) \<times> call list" where
  "GetSectionByID c id' calls =
     (let out = zero_Section;
          dto = zero_SectionDTO;
          ((err, dto), calls) =
             SendRequest c ''GET'' (''/sections/'' @ itoa id' @ ''/'') EmptyBody dto calls;
          out = Section_FromDTO out dto
      in ((out, err), calls))"

text \<open>\<open>GetSectionByName\<close>: returns \<open>(out Section, err error)\<close>, one record.\<close>

definition GetSectionByName ::
  "SectionDTO dispatcher \<Rightarrow> string \<Rightarrow> call list \<Rightarrow> (Section \<times> error option) \<times> call list" where
  "GetSectionByName c name calls =
     (let out = zero_Section;
          dto = zero_SectionDTO;
          ((err, dto), calls) =
             SendRequest c ''GET'' (''/sections/'' @ name @ ''/'') EmptyBody dto calls;
          out = Section_FromDTO out dto
      in ((out, err), calls))"

definition GetSubnetsInSection ::
  "SubnetDTO slice dispatcher \<Rightarrow> int \<Rightarrow> call list
     \<Rightarrow> (Subnet slice \<times> error option) \<times> call list" where
  "GetSubnetsInSection c id' calls =
     (let out = None;
          dtos = None;
          ((err, dtos), calls) =
             SendRequest c ''GET'' (''/sections/'' @ itoa id' @ ''/subnets/'') EmptyBody dtos calls;
          out = foldl (\<lambda>out subnetDTO. go_append out (Subnet_FromDTO zero_Subnet subnetDTO))
                  out (go_range dtos)
      in ((out, err), calls))"

text \<open>\<open>DeleteSection\<close>: the response is decoded into \<open>&struct{}{}\<close>, a value of unit type.\<close>

definition DeleteSection ::
  "unit dispatcher \<Rightarrow> int \<Rightarrow> call list \<Rightarrow> error option \<times> call list" where
  "DeleteSection c id' calls =
     (let ((err, u), calls) =
             SendRequest c ''DELETE'' (''/sections/'' @ itoa id' @ ''/'') EmptyBody () calls
      in (err, calls))"

section \<open>Package vlans\<close>

record VLANDTO =
  ID :: JSONIntString
  DomainID :: JSONIntString
  Name :: string
  Number :: JSONIntString
  Description :: string
  EditDate :: string
  CustomFields :: "anyval gomap"

record VLAN =
  ID :: int
  DomainID :: int
  Name :: string
  Number :: int
  Description :: string
  EditDate :: string
  CustomFields :: "anyval gomap"

definition zero_VLANDTO :: VLANDTO where
  "zero_VLANDTO =
     \<lparr>VLANDTO.ID = JSONIntString 0,
      VLANDTO.DomainID = JSONIntString 0,
      VLANDTO.Name = '''',
      VLANDTO.Number = JSONIntString 0,
      VLANDTO.Description = '''',
      VLANDTO.EditDate = '''',
      VLANDTO.CustomFields = None\<rparr>"

definition zero_VLAN :: VLAN where
  "zero_VLAN =
     \<lparr>VLAN.ID = 0,
      VLAN.DomainID = 0,
      VLAN.Name = '''',
      VLAN.Number = 0,
      VLAN.Description = '''',
      VLAN.EditDate = '''',
      VLAN.CustomFields = None\<rparr>"

text \<open>\<open>func (v *VLAN) FromDTO(dto *VLANDTO)\<close>: assigns every field of \<open>v\<close>.\<close>

definition VLAN_FromDTO :: "VLAN \<Rightarrow> VLANDTO \<Rightarrow> VLAN" where
  "VLAN_FromDTO v dto =
     v\<lparr>VLAN.ID := int_of (VLANDTO.ID dto),
       VLAN.DomainID := int_of (VLANDTO.DomainID dto),
       VLAN.Name := VLANDTO.Name dto,
       VLAN.Number := int_of (VLANDTO.Number dto),
       VLAN.Description := VLANDTO.Description dto,
       VLAN.EditDate := VLANDTO.EditDate dto,
       VLAN.CustomFields := VLANDTO.CustomFields dto\<rparr>"

text \<open>\<open>func (v *VLAN) ToDTO()\<close>.\<close>

definition VLAN_ToDTO :: "VLAN \<Rightarrow> VLANDTO" where
  "VLAN_ToDTO v =
     \<lparr>VLANDTO.ID = JSONIntString (VLAN.ID v),
      VLANDTO.DomainID = JSONIntString (VLAN.DomainID v),
      VLANDTO.Name = VLAN.Name v,
      VLANDTO.Number = JSONIntString (VLAN.Number v),
      VLANDTO.Description = VLAN.Description v,
      VLANDTO.EditDate = VLAN.EditDate v,
      VLANDTO.CustomFields = VLAN.CustomFields v\<rparr>"

definition GetVLANByID ::
  "VLANDTO dispatcher \<Rightarrow> int \<Rightarrow> call list \<Rightarrow> (VLAN \<times> error option) \<times> call list" where
  "GetVLANByID c id' calls =
     (let out = zero_VLAN;
          dto = zero_VLANDTO;
          ((err, dto), calls) =
             SendRequest c ''GET'' (''/vlans/'' @ itoa id' @ ''/'') EmptyBody dto calls;
          out = VLAN_FromDTO out dto
      in ((out, err), calls))"

definition GetVLANsByNumber ::
  "VLANDTO slice dispatcher \<Rightarrow> int \<Rightarrow> call list \<Rightarrow> (VLAN slice \<times> error option) \<times> call list" where
  "GetVLANsByNumber c id' calls =
     (let out = None;
          dtos = None;
          ((err, dtos), calls) =
             SendRequest c ''GET'' (''/vlans/search/'' @ itoa id' @ ''/'') EmptyBody dtos calls;
          out = foldl (\<lambda>out dto. go_append out (VLAN_FromDTO zero_VLAN dto)) out (go_range dtos)
      in ((out, err), calls))"

definition GetVLANsByNumberAndDomainID ::
  "VLANDTO slice dispatcher \<Rightarrow> int \<Rightarrow> int \<Rightarrow> call list
     \<Rightarrow> (VLAN slice \<times> error option) \<times> call list" where
  "GetVLANsByNumberAndDomainID c vlan_id domain_id calls =
     (let out = None;
          dtos = None;
          ((err, dtos), calls) =
             SendRequest c ''GET''
               (''/vlans/search/'' @ itoa vlan_id @ ''/?filter_by=domainId&filter_value=''
                  @ itoa domain_id)
               EmptyBody dtos calls;
          out = foldl (\<lambda>out dto. go_append out (VLAN_FromDTO zero_VLAN dto)) out (go_range dtos)
      in ((out, err), calls))"

text \<open>\<open>GetVLANCustomFieldsSchema\<close>: the client's schema lookup for the controller \<open>vlans\<close>.\<close>

definition GetVLANCustomFieldsSchema ::
  "'cf schema_source \<Rightarrow> call list \<Rightarrow> ('cf gomap \<times> error option) \<times> call list" where
  "GetVLANCustomFieldsSchema c calls = GetCustomFieldsSchema c ''vlans'' calls"

text \<open>
  The inner loop of \<open>UpdateVLANCustomFields\<close>,
  \<open>for l := range schema { if k == l { goto customFieldFound } }\<close>:
  whether the jump to the label is taken.
\<close>

fun customFieldFound :: "string \<Rightarrow> string list \<Rightarrow> bool" where
  "customFieldFound k [] = False"
| "customFieldFound k (l # ls) = (if k = l then True else customFieldFound k ls)"

text \<open>
  The outer loop, \<open>for k := range in\<close>: the first key visited for which the inner loop
  falls through to the \<open>return\<close>, or \<open>None\<close> when the loop runs to its end.
\<close>

fun verify_custom_fields :: "string list \<Rightarrow> string list \<Rightarrow> string option" where
  "verify_custom_fields [] schema = None"
| "verify_custom_fields (k # ks) schema =
     (if customFieldFound k schema then verify_custom_fields ks schema else Some k)"

text \<open>
  \<open>UpdateVLANCustomFields\<close>: fetch the schema, verify the keys of \<open>in\<close>, then build
  \<open>params\<close> and send the \<open>PATCH\<close>. The client gives the schema (\<open>cs\<close>) and dispatches the
  request (\<open>c\<close>); the message is decoded into a string. The second \<open>range\<close> over \<open>in\<close>
  may visit the entries in another order than the first; the table it builds is the
  same map for every order, the keys of \<open>in\<close> being distinct.
\<close>

definition UpdateVLANCustomFields ::
  "'cf schema_source \<Rightarrow> string dispatcher \<Rightarrow> int \<Rightarrow> string \<Rightarrow> anyval gomap \<Rightarrow> call list
     \<Rightarrow> (string \<times> error option) \<times> call list" where
  "UpdateVLANCustomFields cs c id' name input calls =
     (let message = '''';
          ((schema, err), calls) = GetVLANCustomFieldsSchema cs calls
      in if err \<noteq> None then ((message, err), calls)
         else
           (case verify_custom_fields (gomap_keys input) (gomap_keys schema) of
              Some k \<Rightarrow>
                (('''', Some (Error (''Custom field '' @ k
                                      @ '' not found in schema for controller vlans''))),
                 calls)
            | None \<Rightarrow>
                (let params = [];
                     params = foldl (\<lambda>params (k, v). gomap_assign k v params)
                                params (gomap_range input);
                     params = gomap_assign ''id'' (AnyInt id') params;
                     params = gomap_assign ''name'' (AnyString name) params;
                     ((err, message), calls) =
                        SendRequest c ''PATCH'' ''/vlans/'' (ParamsBody params) message calls
                 in ((message, err), calls))))"

section \<open>Package l2domains\<close>

record L2DomainDTO =
  ID :: JSONIntString
  Name :: string
  Description :: string
  Sections :: string

record L2Domain =
  ID :: int
  Name :: string
  Description :: string
  Sections :: string

definition zero_L2DomainDTO :: L2DomainDTO where
  "zero_L2DomainDTO =
     \<lparr>L2DomainDTO.ID = JSONIntString 0,
      L2DomainDTO.Name = '''',
      L2DomainDTO.Description = '''',
      L2DomainDTO.Sections = ''''\<rparr>"

definition zero_L2Domain :: L2Domain where
  "zero_L2Domain =
     \<lparr>L2Domain.ID = 0,
      L2Domain.Name = '''',
      L2Domain.Description = '''',
      L2Domain.Sections = ''''\<rparr>"

text \<open>\<open>func (ld *L2Domain) FromDTO(dto *L2DomainDTO)\<close>: assigns every field of \<open>ld\<close>.\<close>

definition L2Domain_FromDTO :: "L2Domain \<Rightarrow> L2DomainDTO \<Rightarrow> L2Domain" where
  "L2Domain_FromDTO ld dto =
     ld\<lparr>L2Domain.ID := int_of (L2DomainDTO.ID dto),
       L2Domain.Name := L2DomainDTO.Name dto,
       L2Domain.Description := L2DomainDTO.Description dto,
       L2Domain.Sections := L2DomainDTO.Sections dto\<rparr>"

text \<open>\<open>func (ld *L2Domain) ToDTO()\<close>.\<close>

definition L2Domain_ToDTO :: "L2Domain \<Rightarrow> L2DomainDTO" where
  "L2Domain_ToDTO ld =
     \<lparr>L2DomainDTO.ID = JSONIntString (L2Domain.ID ld),
      L2DomainDTO.Name = L2Domain.Name ld,
      L2DomainDTO.Description = L2Domain.Description ld,
      L2DomainDTO.Sections = L2Domain.Sections ld\<rparr>"

text \<open>
  \<open>ListL2Domains\<close>: the destination of the request is \<open>&out\<close>, the slice of \<open>L2Domain\<close>
  that is returned; no \<open>L2DomainDTO\<close> is involved.
\<close>

definition ListL2Domains ::
  "L2Domain slice dispatcher \<Rightarrow> call list \<Rightarrow> (L2Domain slice \<times> error option) \<times> call list" where
  "ListL2Domains c calls =
     (let out = None;
          ((err, out), calls) = SendRequest c ''GET'' ''/l2domains/'' EmptyBody out calls
      in ((out, err), calls))"

definition GetL2DomainByID ::
  "L2DomainDTO dispatcher \<Rightarrow> int \<Rightarrow> call list \<Rightarrow> (L2Domain \<times> error option) \<times> call list" where
  "GetL2DomainByID c id' calls =
     (let out = zero_L2Domain;
          dto = zero_L2DomainDTO;
          ((err, dto), calls) =
             SendRequest c ''GET'' (''/l2domains/'' @ itoa id' @ ''/'') EmptyBody dto calls;
          out = L2Domain_FromDTO out dto
      in ((out, err), calls))"

definition GetL2DomainByName ::
  "L2DomainDTO slice dispatcher \<Rightarrow> string \<Rightarrow> call list
     \<Rightarrow> (L2Domain slice \<times> error option) \<times> call list" where
  "GetL2DomainByName c name calls =
     (let out = None;
          dtos = None;
          ((err, dtos), calls) =
             SendRequest c ''GET'' (''/l2domains/?filter_by=name&filter_value='' @ name)
               EmptyBody dtos calls;
          out = foldl (\<lambda>out dto. go_append out (L2Domain_FromDTO zero_L2Domain dto))
                  out (go_range dtos)
      in ((out, err), calls))"

definition GetVlansInl2Domain ::
  "VLANDTO slice dispatcher \<Rightarrow> int \<Rightarrow> call list \<Rightarrow> (VLAN slice \<times> error option) \<times> call list" where
  "GetVlansInl2Domain c id' calls =
     (let out = None;
          dtos = None;
          ((err, dtos), calls) =
             SendRequest c ''GET'' (''/l2domains/'' @ itoa id' @ ''/vlans/'') EmptyBody dtos calls;
          out = foldl (\<lambda>out dto. go_append out (VLAN_FromDTO zero_VLAN dto)) out (go_range dtos)
      in ((out, err), calls))"

section \<open>Properties\<close>

subsection \<open>Helper lemmas\<close>

lemma convert_loop:
  "foldl (\<lambda>out d. go_append out (f d)) out xs =
     (if xs = [] then out else Some (go_range out @ map f xs))"
  by (induction xs arbitrary: out) (auto simp: go_append_def go_range_def)

lemma go_range_convert_loop:
  "go_range (foldl (\<lambda>out d. go_append out (f d)) None xs) = map f xs"
  by (simp add: convert_loop go_range_def)

lemma customFieldFound_iff: "customFieldFound k ls \<longleftrightarrow> k \<in> set ls"
  by (induction ls) auto

lemma verify_custom_fields_None:
  "verify_custom_fields ks ls = None \<longleftrightarrow> set ks \<subseteq> set ls"
  by (induction ks) (auto simp: customFieldFound_iff)

lemma verify_custom_fields_Some:
  "verify_custom_fields ks ls = Some k \<Longrightarrow>
     \<exists>ks1 ks2. ks = ks1 @ k # ks2 \<and> set ks1 \<subseteq> set ls \<and> k \<notin> set ls"
proof (induction ks)
  case Nil
  then show ?case by simp
next
  case (Cons a ks)
  show ?case
  proof (cases "customFieldFound a ls")
    case True
    with Cons obtain ks1 ks2 where "ks = ks1 @ k # ks2" "set ks1 \<subseteq> set ls" "k \<notin> set ls"
      by auto
    with True have "a # ks = (a # ks1) @ k # ks2 \<and> set (a # ks1) \<subseteq> set ls \<and> k \<notin> set ls"
      by (simp add: customFieldFound_iff)
    then show ?thesis by blast
  next
    case False
    with Cons.prems have "a = k" by simp
    with False have "a # ks = [] @ k # ks \<and> set [] \<subseteq> set ls \<and> k \<notin> set ls"
      by (simp add: customFieldFound_iff)
    then show ?thesis by blast
  qed
qed

lemma map_of_gomap_assign: "map_of (gomap_assign k v ps) = (map_of ps)(k \<mapsto> v)"
  by (induction ps) (auto simp: fun_eq_iff)

lemma keys_gomap_assign: "set (map fst (gomap_assign k v ps)) = insert k (set (map fst ps))"
  by (induction ps) auto

lemma distinct_gomap_assign:
  "distinct (map fst ps) \<Longrightarrow> distinct (map fst (gomap_assign k v ps))"
  by (induction ps) (auto simp: keys_gomap_assign simp flip: set_map)

lemma distinct_params_loop:
  "distinct (map fst acc) \<Longrightarrow>
     distinct (map fst (foldl (\<lambda>params (k, v). gomap_assign k v params) acc kvs))"
  by (induction kvs arbitrary: acc) (auto simp: distinct_gomap_assign)

lemma map_of_params_loop:
  "distinct (map fst kvs) \<Longrightarrow>
     map_of (foldl (\<lambda>params (k, v). gomap_assign k v params) acc kvs) x =
       (case map_of kvs x of Some v \<Rightarrow> Some v | None \<Rightarrow> map_of acc x)"
proof (induction kvs arbitrary: acc)
  case Nil
  then show ?case by simp
next
  case (Cons p kvs)
  obtain k v where p: "p = (k, v)" by (cases p)
  from Cons.prems p have nk: "k \<notin> fst ` set kvs" and d: "distinct (map fst kvs)" by auto
  from nk have n: "map_of kvs k = None" by (simp add: map_of_eq_None_iff)
  show ?case
    using Cons.IH [OF d, of "gomap_assign k v acc"] p n
    by (auto simp: map_of_gomap_assign split: option.splits)
qed

lemma map_of_params:
  "distinct (map fst kvs) \<Longrightarrow>
     map_of (foldl (\<lambda>params (k, v). gomap_assign k v params) [] kvs) = map_of kvs"
  by (rule ext) (simp add: map_of_params_loop split: option.splits)

lemma digit_val_digit_char: "d < 10 \<Longrightarrow> digit_val (digit_char d) = Some d"
proof -
  assume "d < 10"
  then consider "d = 0" | "d = 1" | "d = 2" | "d = 3" | "d = 4" | "d = 5" | "d = 6" | "d = 7"
    | "d = 8" | "d = 9" by atomize_elim arith
  then show ?thesis
    by cases (simp_all add: digit_val_def digit_char_def)
qed

lemma parse_digits_append:
  "parse_digits acc (xs @ ys) =
     (case parse_digits acc xs of None \<Rightarrow> None | Some a \<Rightarrow> parse_digits a ys)"
  by (induction xs arbitrary: acc) (auto split: option.splits)

lemma parse_digits_utoa: "parse_digits 0 (utoa n) = Some n"
proof (induction n rule: utoa.induct)
  case (1 n)
  show ?case
  proof (cases "n < 10")
    case True
    then show ?thesis by (subst utoa.simps) (simp add: digit_val_digit_char)
  next
    case False
    with 1 have ih: "parse_digits 0 (utoa (n div 10)) = Some (n div 10)" by simp
    have m: "n mod 10 < 10" by simp
    show ?thesis
      using False ih digit_val_digit_char [OF m]
      by (subst utoa.simps) (simp add: parse_digits_append)
  qed
qed

lemma utoa_digits: "ch \<in> set (utoa n) \<Longrightarrow> digit_val ch \<noteq> None"
proof (induction n rule: utoa.induct)
  case (1 n)
  show ?case
  proof (cases "n < 10")
    case True
    with "1.prems" have "ch = digit_char n" by (subst (asm) utoa.simps) simp
    with True show ?thesis by (simp add: digit_val_digit_char)
  next
    case False
    have m: "n mod 10 < 10" by simp
    from "1.prems" False have "ch \<in> set (utoa (n div 10)) \<or> ch = digit_char (n mod 10)"
      by (subst (asm) utoa.simps) auto
    with 1 False digit_val_digit_char [OF m] show ?thesis by auto
  qed
qed

lemma utoa_nonempty: "utoa n \<noteq> []"
  by (subst utoa.simps) simp

lemma parse_int_itoa: "0 \<le> n \<Longrightarrow> parse_int (itoa n) = Some n"
proof -
  assume n: "0 \<le> n"
  obtain ch cs where u: "utoa (nat n) = ch # cs"
    using utoa_nonempty by (cases "utoa (nat n)") auto
  have "digit_val ch \<noteq> None" using utoa_digits [of ch "nat n"] u by simp
  then have "ch \<noteq> CHR ''-''" by (auto simp: digit_val_def)
  then show ?thesis
    using n u parse_digits_utoa [of "nat n"] by (simp add: parse_int_def itoa_def)
qed

subsection \<open>The scalar wrapper\<close>

text \<open>
  C9. For every integer \<open>n \<ge> 0\<close>, decoding the encoding of \<open>n\<close> under the Normalized
  Integer type gives \<open>n\<close> again (whether or not the field is optional, so also when the
  zero value is omitted), and decoding gives the same value for the quoted numeric
  string of \<open>n\<close> and for the native JSON number \<open>n\<close>.
\<close>

theorem JSONIntString_roundtrip:
  "0 \<le> n \<Longrightarrow>
     JSONIntString_decode (JSONIntString_encode optional (JSONIntString n)) = Inr (JSONIntString n)
     \<and> JSONIntString_decode (StringToken (itoa n)) = JSONIntString_decode (NumberToken n)"
proof -
  assume n: "0 \<le> n"
  have ne: "itoa n \<noteq> []" using n utoa_nonempty by (simp add: itoa_def)
  show ?thesis
    using ne parse_int_itoa [OF n]
    by (simp add: JSONIntString_decode_def JSONIntString_encode_def)
qed

theorem JSONIntString_roundtrip_witness:
  "(0::int) \<le> 42
   \<and> JSONIntString_encode False (JSONIntString 42) = StringToken ''42''
   \<and> JSONIntString_decode (StringToken ''42'') = Inr (JSONIntString 42)
   \<and> JSONIntString_decode (NumberToken 42) = Inr (JSONIntString 42)"
proof -
  have i: "itoa 42 = ''42''" by code_simp
  show ?thesis
    using JSONIntString_roundtrip [of 42 False]
    by (simp add: i JSONIntString_encode_def) (simp add: JSONIntString_decode_def)
qed

subsection \<open>The mapping between wire and domain records\<close>

text \<open>
  C2. For every resource kind (section, address, subnet, VLAN, L2 domain) and every
  domain record \<open>d\<close>, \<open>FromDTO\<close> of \<open>ToDTO d\<close> is \<open>d\<close>, whatever the receiver held before;
  and for every wire record \<open>ToDTO\<close> of its \<open>FromDTO\<close> is the wire record again, so the
  pair is a bijection in which no field is dropped, renamed or computed.
\<close>

theorem FromDTO_ToDTO_roundtrip:
  "Section_FromDTO s (Section_ToDTO ds) = ds
   \<and> Address_FromDTO a (Address_ToDTO da) = da
   \<and> Subnet_FromDTO sn (Subnet_ToDTO dsn) = dsn
   \<and> VLAN_FromDTO v (VLAN_ToDTO dv) = dv
   \<and> L2Domain_FromDTO ld (L2Domain_ToDTO dld) = dld
   \<and> Section_ToDTO (Section_FromDTO s sectionDTO) = sectionDTO
   \<and> Address_ToDTO (Address_FromDTO a addressDTO) = addressDTO
   \<and> Subnet_ToDTO (Subnet_FromDTO sn subnetDTO) = subnetDTO
   \<and> VLAN_ToDTO (VLAN_FromDTO v vlanDTO) = vlanDTO
   \<and> L2Domain_ToDTO (L2Domain_FromDTO ld l2domainDTO) = l2domainDTO"
  by (simp add: Section_FromDTO_def Section_ToDTO_def Address_FromDTO_def Address_ToDTO_def
        Subnet_FromDTO_def Subnet_ToDTO_def VLAN_FromDTO_def VLAN_ToDTO_def
        L2Domain_FromDTO_def L2Domain_ToDTO_def)

text \<open>
  C3, as the code has it. Every \<open>JSONIntString\<close> field of a wire record other than the
  subnet's \<open>Mask\<close> appears in the domain record as a plain \<open>int\<close>, the value unwrapped by
  \<open>FromDTO\<close>; the subnet's \<open>Mask\<close> is declared \<open>phpipam.JSONIntString\<close> in the domain record
  as well and is copied as it is.
\<close>

theorem FromDTO_unwraps_integers:
  "Section.ID (Section_FromDTO s sectionDTO) = int_of (SectionDTO.ID sectionDTO)
   \<and> Section.MasterSection (Section_FromDTO s sectionDTO)
       = int_of (SectionDTO.MasterSection sectionDTO)
   \<and> Section.Order (Section_FromDTO s sectionDTO) = int_of (SectionDTO.Order sectionDTO)
   \<and> Section.DNS (Section_FromDTO s sectionDTO) = int_of (SectionDTO.DNS sectionDTO)
   \<and> Address.ID (Address_FromDTO a addressDTO) = int_of (AddressDTO.ID addressDTO)
   \<and> Address.SubnetID (Address_FromDTO a addressDTO) = int_of (AddressDTO.SubnetID addressDTO)
   \<and> Address.Tag (Address_FromDTO a addressDTO) = int_of (AddressDTO.Tag addressDTO)
   \<and> Address.PTRRecordID (Address_FromDTO a addressDTO)
       = int_of (AddressDTO.PTRRecordID addressDTO)
   \<and> Address.DeviceID (Address_FromDTO a addressDTO) = int_of (AddressDTO.DeviceID addressDTO)
   \<and> Subnet.ID (Subnet_FromDTO sn subnetDTO) = int_of (SubnetDTO.ID subnetDTO)
   \<and> Subnet.SectionID (Subnet_FromDTO sn subnetDTO) = int_of (SubnetDTO.SectionID subnetDTO)
   \<and> Subnet.LinkedSubnet (Subnet_FromDTO sn subnetDTO)
       = int_of (SubnetDTO.LinkedSubnet subnetDTO)
   \<and> Subnet.VLANID (Subnet_FromDTO sn subnetDTO) = int_of (SubnetDTO.VLANID subnetDTO)
   \<and> Subnet.VRFID (Subnet_FromDTO sn subnetDTO) = int_of (SubnetDTO.VRFID subnetDTO)
   \<and> Subnet.MasterSubnetID (Subnet_FromDTO sn subnetDTO)
       = int_of (SubnetDTO.MasterSubnetID subnetDTO)
   \<and> Subnet.NameserverID (Subnet_FromDTO sn subnetDTO)
       = int_of (SubnetDTO.NameserverID subnetDTO)
   \<and> Subnet.ScanAgent (Subnet_FromDTO sn subnetDTO) = int_of (SubnetDTO.ScanAgent subnetDTO)
   \<and> Subnet.Threshold (Subnet_FromDTO sn subnetDTO) = int_of (SubnetDTO.Threshold subnetDTO)
   \<and> Subnet.Location (Subnet_FromDTO sn subnetDTO) = int_of (SubnetDTO.Location subnetDTO)
   \<and> VLAN.ID (VLAN_FromDTO v vlanDTO) = int_of (VLANDTO.ID vlanDTO)
   \<and> VLAN.DomainID (VLAN_FromDTO v vlanDTO) = int_of (VLANDTO.DomainID vlanDTO)
   \<and> VLAN.Number (VLAN_FromDTO v vlanDTO) = int_of (VLANDTO.Number vlanDTO)
   \<and> L2Domain.ID (L2Domain_FromDTO ld l2domainDTO) = int_of (L2DomainDTO.ID l2domainDTO)
   \<and> Subnet.Mask (Subnet_FromDTO sn subnetDTO) = SubnetDTO.Mask subnetDTO"
  by (simp add: Section_FromDTO_def Address_FromDTO_def Subnet_FromDTO_def VLAN_FromDTO_def
        L2Domain_FromDTO_def)

text \<open>
  C3 as stated fails: the \<open>Mask\<close> of the domain record of a subnet decoded with mask 24
  is the wrapped value \<open>JSONIntString 24\<close>, not a plain integer.
\<close>

theorem Subnet_Mask_keeps_wrapper:
  "Subnet.Mask (Subnet_FromDTO zero_Subnet (zero_SubnetDTO\<lparr>SubnetDTO.Mask := JSONIntString 24\<rparr>))
     = JSONIntString 24"
  by (simp add: Subnet_FromDTO_def)

subsection \<open>Getting a record by its identifier\<close>

text \<open>
  C10, as the code has it. When the dispatcher returns an error, \<open>GetSectionByID\<close>,
  \<open>GetVLANByID\<close> and \<open>GetSubnetByID\<close> still apply \<open>FromDTO\<close> to the wire record as
  \<open>SendRequest\<close> left it and return the resulting domain record together with the error;
  one \<open>GET\<close> has been issued. When the error left the wire record untouched, the record
  returned is the zero-valued domain record (integers 0, strings empty, maps nil).
\<close>

theorem GetByID_error_converts_wire_record:
  assumes "cs ''GET'' (''/sections/'' @ itoa id' @ ''/'') EmptyBody = Inl (e1, w1)"
    and "cv ''GET'' (''/vlans/'' @ itoa id' @ ''/'') EmptyBody = Inl (e2, w2)"
    and "cn ''GET'' (''/subnets/'' @ itoa id' @ ''/'') EmptyBody = Inl (e3, w3)"
  shows "GetSectionByID cs id' calls =
           ((Section_FromDTO zero_Section
               (case w1 of None \<Rightarrow> zero_SectionDTO | Some dto \<Rightarrow> dto), Some e1),
            calls @ [SendRequestCall ''GET'' (''/sections/'' @ itoa id' @ ''/'') EmptyBody])
       \<and> Section_FromDTO zero_Section zero_SectionDTO = zero_Section
       \<and> GetVLANByID cv id' calls =
           ((VLAN_FromDTO zero_VLAN (case w2 of None \<Rightarrow> zero_VLANDTO | Some dto \<Rightarrow> dto), Some e2),
            calls @ [SendRequestCall ''GET'' (''/vlans/'' @ itoa id' @ ''/'') EmptyBody])
       \<and> VLAN_FromDTO zero_VLAN zero_VLANDTO = zero_VLAN
       \<and> GetSubnetByID cn id' calls =
           ((Subnet_FromDTO zero_Subnet
               (case w3 of None \<Rightarrow> zero_SubnetDTO | Some dto \<Rightarrow> dto), Some e3),
            calls @ [SendRequestCall ''GET'' (''/subnets/'' @ itoa id' @ ''/'') EmptyBody])
       \<and> Subnet_FromDTO zero_Subnet zero_SubnetDTO = zero_Subnet"
proof -
  have s: "GetSectionByID cs id' calls =
           ((Section_FromDTO zero_Section
               (case w1 of None \<Rightarrow> zero_SectionDTO | Some dto \<Rightarrow> dto), Some e1),
            calls @ [SendRequestCall ''GET'' (''/sections/'' @ itoa id' @ ''/'') EmptyBody])"
    using assms(1) by (simp add: GetSectionByID_def SendRequest_def)
  have v: "GetVLANByID cv id' calls =
           ((VLAN_FromDTO zero_VLAN (case w2 of None \<Rightarrow> zero_VLANDTO | Some dto \<Rightarrow> dto), Some e2),
            calls @ [SendRequestCall ''GET'' (''/vlans/'' @ itoa id' @ ''/'') EmptyBody])"
    using assms(2) by (simp add: GetVLANByID_def SendRequest_def)
  have n: "GetSubnetByID cn id' calls =
           ((Subnet_FromDTO zero_Subnet
               (case w3 of None \<Rightarrow> zero_SubnetDTO | Some dto \<Rightarrow> dto), Some e3),
            calls @ [SendRequestCall ''GET'' (''/subnets/'' @ itoa id' @ ''/'') EmptyBody])"
    using assms(3) by (simp add: GetSubnetByID_def SendRequest_def)
  have z1: "Section_FromDTO zero_Section zero_SectionDTO = zero_Section"
    by (simp add: Section_FromDTO_def zero_Section_def zero_SectionDTO_def)
  have z2: "VLAN_FromDTO zero_VLAN zero_VLANDTO = zero_VLAN"
    by (simp add: VLAN_FromDTO_def zero_VLAN_def zero_VLANDTO_def)
  have z3: "Subnet_FromDTO zero_Subnet zero_SubnetDTO = zero_Subnet"
    by (simp add: Subnet_FromDTO_def zero_Subnet_def zero_SubnetDTO_def)
  from s v n z1 z2 z3 show ?thesis by blast
qed

theorem GetByID_error_converts_wire_record_witness:
  "GetSectionByID (\<lambda>method uri input. Inl (Error ''not found'', None)) 5 [] =
      ((zero_Section, Some (Error ''not found'')),
       [SendRequestCall ''GET'' ''/sections/5/'' EmptyBody])
   \<and> GetVLANByID (\<lambda>method uri input. Inl (Error ''not found'', None)) 5 [] =
      ((zero_VLAN, Some (Error ''not found'')),
       [SendRequestCall ''GET'' ''/vlans/5/'' EmptyBody])
   \<and> GetSubnetByID (\<lambda>method uri input. Inl (Error ''not found'', None)) 5 [] =
      ((zero_Subnet, Some (Error ''not found'')),
       [SendRequestCall ''GET'' ''/subnets/5/'' EmptyBody])
   \<and> GetSectionByID
        (\<lambda>method uri input.
            Inl (Error ''decode'', Some (zero_SectionDTO\<lparr>SectionDTO.ID := JSONIntString 5\<rparr>)))
        5 [] =
      ((zero_Section\<lparr>Section.ID := 5\<rparr>, Some (Error ''decode'')),
       [SendRequestCall ''GET'' ''/sections/5/'' EmptyBody])
   \<and> GetVLANByID
        (\<lambda>method uri input.
            Inl (Error ''decode'', Some (zero_VLANDTO\<lparr>VLANDTO.ID := JSONIntString 5\<rparr>)))
        5 [] =
      ((zero_VLAN\<lparr>VLAN.ID := 5\<rparr>, Some (Error ''decode'')),
       [SendRequestCall ''GET'' ''/vlans/5/'' EmptyBody])
   \<and> GetSubnetByID
        (\<lambda>method uri input.
            Inl (Error ''decode'', Some (zero_SubnetDTO\<lparr>SubnetDTO.ID := JSONIntString 5\<rparr>)))
        5 [] =
      ((zero_Subnet\<lparr>Subnet.ID := 5\<rparr>, Some (Error ''decode'')),
       [SendRequestCall ''GET'' ''/subnets/5/'' EmptyBody])"
proof -
  have i: "itoa 5 = ''5''" by code_simp
  have p1: "Section_FromDTO zero_Section (zero_SectionDTO\<lparr>SectionDTO.ID := JSONIntString 5\<rparr>)
              = zero_Section\<lparr>Section.ID := 5\<rparr>"
    by (simp add: Section_FromDTO_def zero_Section_def zero_SectionDTO_def)
  have p2: "VLAN_FromDTO zero_VLAN (zero_VLANDTO\<lparr>VLANDTO.ID := JSONIntString 5\<rparr>)
              = zero_VLAN\<lparr>VLAN.ID := 5\<rparr>"
    by (simp add: VLAN_FromDTO_def zero_VLAN_def zero_VLANDTO_def)
  have p3: "Subnet_FromDTO zero_Subnet (zero_SubnetDTO\<lparr>SubnetDTO.ID := JSONIntString 5\<rparr>)
              = zero_Subnet\<lparr>Subnet.ID := 5\<rparr>"
    by (simp add: Subnet_FromDTO_def zero_Subnet_def zero_SubnetDTO_def)
  show ?thesis
    using GetByID_error_converts_wire_record
            [where cs = "\<lambda>method uri input. Inl (Error ''not found'', None)"
               and cv = "\<lambda>method uri input. Inl (Error ''not found'', None)"
               and cn = "\<lambda>method uri input. Inl (Error ''not found'', None)"
               and id' = 5 and calls = "[]"]
          GetByID_error_converts_wire_record
            [where cs = "\<lambda>method uri input.
                           Inl (Error ''decode'',
                                Some (zero_SectionDTO\<lparr>SectionDTO.ID := JSONIntString 5\<rparr>))"
               and cv = "\<lambda>method uri input.
                           Inl (Error ''decode'',
                                Some (zero_VLANDTO\<lparr>VLANDTO.ID := JSONIntString 5\<rparr>))"
               and cn = "\<lambda>method uri input.
                           Inl (Error ''decode'',
                                Some (zero_SubnetDTO\<lparr>SubnetDTO.ID := JSONIntString 5\<rparr>))"
               and id' = 5 and calls = "[]"]
    by (simp add: i p1 p2 p3)
qed

text \<open>
  C10 as stated fails: when the error arises while the response is decoded, the wire
  record is left partly written, and \<open>GetSectionByID\<close> returns with the error the record
  converted from it, which is not the zero-valued \<open>Section\<close>.
\<close>

theorem GetSectionByID_decode_error_returns_populated_record:
  "GetSectionByID
      (\<lambda>method uri input.
          Inl (Error ''decode'',
               Some (zero_SectionDTO\<lparr>SectionDTO.ID := JSONIntString 3,
                                      SectionDTO.Name := ''Customers''\<rparr>)))
      3 []
     = ((zero_Section\<lparr>Section.ID := 3, Section.Name := ''Customers''\<rparr>, Some (Error ''decode'')),
        [SendRequestCall ''GET'' ''/sections/3/'' EmptyBody])
   \<and> zero_Section\<lparr>Section.ID := 3, Section.Name := ''Customers''\<rparr> \<noteq> zero_Section"
proof -
  have i: "itoa 3 = ''3''" by code_simp
  show ?thesis
    by (simp add: i GetSectionByID_def SendRequest_def Section_FromDTO_def zero_Section_def
          zero_SectionDTO_def)
qed

subsection \<open>Updating the custom fields of a VLAN\<close>

text \<open>
  C1. For every schema returned by \<open>GetVLANCustomFieldsSchema\<close> and every update map: if
  some key of the update map is absent from the schema, \<open>UpdateVLANCustomFields\<close> returns
  the error that names such a key (the first absent key that the loop visits, all keys
  visited before it being in the schema), and the only call it has issued is the schema
  lookup, so no mutating call; and a request appears among the calls it issued only if
  every key of the update map is in the schema.
\<close>

theorem UpdateVLANCustomFields_rejects_unknown_field:
  assumes "cs ''vlans'' = Inr schema"
  shows "(\<not> set (gomap_keys input) \<subseteq> set (gomap_keys schema) \<longrightarrow>
            (\<exists>k ks1 ks2.
                gomap_keys input = ks1 @ k # ks2
              \<and> set ks1 \<subseteq> set (gomap_keys schema)
              \<and> k \<notin> set (gomap_keys schema)
              \<and> UpdateVLANCustomFields cs c id' name input calls =
                  (('''', Some (Error (''Custom field '' @ k
                                        @ '' not found in schema for controller vlans''))),
                   calls @ [GetCustomFieldsSchemaCall ''vlans''])
              \<and> filter mutating
                   (drop (length calls) (snd (UpdateVLANCustomFields cs c id' name input calls)))
                  = []))
       \<and> (\<forall>method uri input'.
             SendRequestCall method uri input'
               \<in> set (drop (length calls) (snd (UpdateVLANCustomFields cs c id' name input calls)))
             \<longrightarrow> set (gomap_keys input) \<subseteq> set (gomap_keys schema))"
proof (cases "verify_custom_fields (gomap_keys input) (gomap_keys schema)")
  case None
  then have "set (gomap_keys input) \<subseteq> set (gomap_keys schema)"
    by (simp add: verify_custom_fields_None)
  then show ?thesis by simp
next
  case (Some k)
  from verify_custom_fields_Some [OF Some] obtain ks1 ks2 where
    ks: "gomap_keys input = ks1 @ k # ks2" "set ks1 \<subseteq> set (gomap_keys schema)"
        "k \<notin> set (gomap_keys schema)" by blast
  have r: "UpdateVLANCustomFields cs c id' name input calls =
             (('''', Some (Error (''Custom field '' @ k
                                   @ '' not found in schema for controller vlans''))),
              calls @ [GetCustomFieldsSchemaCall ''vlans''])"
    using assms Some
    by (simp add: UpdateVLANCustomFields_def GetVLANCustomFieldsSchema_def
          GetCustomFieldsSchema_def)
  from ks r show ?thesis by auto
qed

theorem UpdateVLANCustomFields_rejects_unknown_field_witness:
  "UpdateVLANCustomFields (\<lambda>controller. Inr (Some [(''asset_tag'', ()), (''notes'', ())]))
       (\<lambda>method uri input. Inr ''updated'') 7 ''servers''
       (Some [(''unknown_key'', AnyString ''x'')]) []
     = (('''', Some (Error ''Custom field unknown_key not found in schema for controller vlans'')),
        [GetCustomFieldsSchemaCall ''vlans''])
   \<and> SendRequestCall ''PATCH'' ''/vlans/''
         (ParamsBody [(''asset_tag'', AnyString ''A123''), (''id'', AnyInt 7),
                      (''name'', AnyString ''servers'')])
       \<in> set (snd (UpdateVLANCustomFields
                      (\<lambda>controller. Inr (Some [(''asset_tag'', ()), (''notes'', ())]))
                      (\<lambda>method uri input. Inr ''updated'') 7 ''servers''
                      (Some [(''asset_tag'', AnyString ''A123'')]) []))
   \<and> set (gomap_keys (Some [(''asset_tag'', AnyString ''A123'')]))
       \<subseteq> set (gomap_keys (Some [(''asset_tag'', ()), (''notes'', ())]))"
proof -
  let ?cs = "\<lambda>controller::string. Inr (Some [(''asset_tag'', ()), (''notes'', ())])
               :: error + unit gomap"
  let ?c = "\<lambda>(method::string) (uri::string) (input::body). Inr ''updated''
              :: (error \<times> string option) + string"
  have p: "snd (UpdateVLANCustomFields ?cs ?c 7 ''servers''
                  (Some [(''asset_tag'', AnyString ''A123'')]) [])
             = [GetCustomFieldsSchemaCall ''vlans'',
                SendRequestCall ''PATCH'' ''/vlans/''
                  (ParamsBody [(''asset_tag'', AnyString ''A123''), (''id'', AnyInt 7),
                               (''name'', AnyString ''servers'')])]"
    by (simp add: UpdateVLANCustomFields_def GetVLANCustomFieldsSchema_def
          GetCustomFieldsSchema_def SendRequest_def gomap_keys_def gomap_range_def)
  show ?thesis
    using UpdateVLANCustomFields_rejects_unknown_field
            [of ?cs "Some [(''asset_tag'', ()), (''notes'', ())]"
                "Some [(''unknown_key'', AnyString ''x'')]" ?c 7 "''servers''" "[]"]
          UpdateVLANCustomFields_rejects_unknown_field
            [of ?cs "Some [(''asset_tag'', ()), (''notes'', ())]"
                "Some [(''asset_tag'', AnyString ''A123'')]" ?c 7 "''servers''" "[]"]
    by (auto simp: p gomap_keys_def gomap_range_def Cons_eq_append_conv)
qed

text \<open>
  C6. For every id, name and update map whose keys all occur in the schema,
  \<open>UpdateVLANCustomFields\<close> issues, after the schema lookup, exactly one request: a
  \<open>PATCH\<close> to \<open>/vlans/\<close> whose body is a map that is exactly the update map extended with
  the key \<open>id\<close> bound to the id argument and the key \<open>name\<close> bound to the name argument.
  (The keys of a Go map are pairwise distinct.)
\<close>

theorem UpdateVLANCustomFields_single_patch:
  assumes "cs ''vlans'' = Inr schema"
    and "set (gomap_keys input) \<subseteq> set (gomap_keys schema)"
    and "distinct (gomap_keys input)"
  shows "\<exists>params.
           snd (UpdateVLANCustomFields cs c id' name input calls) =
             calls @ [GetCustomFieldsSchemaCall ''vlans'',
                      SendRequestCall ''PATCH'' ''/vlans/'' (ParamsBody params)]
         \<and> map_of params =
             (map_of (gomap_range input))(''id'' \<mapsto> AnyInt id', ''name'' \<mapsto> AnyString name)
         \<and> distinct (map fst params)"
proof -
  let ?p0 = "foldl (\<lambda>params (k, v). gomap_assign k v params) [] (gomap_range input)"
  let ?params = "gomap_assign ''name'' (AnyString name) (gomap_assign ''id'' (AnyInt id') ?p0)"
  from assms(2) have v: "verify_custom_fields (gomap_keys input) (gomap_keys schema) = None"
    by (simp add: verify_custom_fields_None)
  have d: "distinct (map fst (gomap_range input))" using assms(3) by (simp add: gomap_keys_def)
  have calls: "snd (UpdateVLANCustomFields cs c id' name input calls) =
             calls @ [GetCustomFieldsSchemaCall ''vlans'',
                      SendRequestCall ''PATCH'' ''/vlans/'' (ParamsBody ?params)]"
    using assms(1) v
    by (simp add: UpdateVLANCustomFields_def GetVLANCustomFieldsSchema_def
          GetCustomFieldsSchema_def SendRequest_def Let_def split: sum.split prod.split)
  have m: "map_of ?params =
             (map_of (gomap_range input))(''id'' \<mapsto> AnyInt id', ''name'' \<mapsto> AnyString name)"
    by (simp only: map_of_gomap_assign map_of_params [OF d])
  have dp: "distinct (map fst ?params)"
    by (intro distinct_gomap_assign distinct_params_loop) simp
  from calls m dp show ?thesis by blast
qed

theorem UpdateVLANCustomFields_single_patch_witness:
  "\<exists>params.
     snd (UpdateVLANCustomFields (\<lambda>controller. Inr (Some [(''asset_tag'', ()), (''notes'', ())]))
            (\<lambda>method uri input. Inr ''updated'') 7 ''servers''
            (Some [(''asset_tag'', AnyString ''A123'')]) [])
       = [GetCustomFieldsSchemaCall ''vlans'',
          SendRequestCall ''PATCH'' ''/vlans/'' (ParamsBody params)]
     \<and> map_of params = [''asset_tag'' \<mapsto> AnyString ''A123'', ''id'' \<mapsto> AnyInt 7,
                          ''name'' \<mapsto> AnyString ''servers'']"
  using UpdateVLANCustomFields_single_patch
          [of "\<lambda>controller. Inr (Some [(''asset_tag'', ()), (''notes'', ())])"
              "Some [(''asset_tag'', ()), (''notes'', ())]"
              "Some [(''asset_tag'', AnyString ''A123'')]"
              "\<lambda>method uri input. Inr ''updated''" 7 "''servers''" "[]"]
  by (simp add: gomap_keys_def gomap_range_def) blast

subsection \<open>Operations that return sequences\<close>

text \<open>
  C4, as the code has it. Every get-by-name or get-by-search-key operation other than
  \<open>GetSectionByName\<close> and \<open>GetAddressesByIpInSubnet\<close> decodes the response as a sequence
  of wire records and returns the sequence of their domain records, in order
  (\<open>GetL2DomainByName\<close>, \<open>GetAddressesByIP\<close>, \<open>GetSubnetsByCIDR\<close>,
  \<open>GetSubnetsByCIDRAndSection\<close>, \<open>GetVLANsByNumber\<close>, \<open>GetVLANsByNumberAndDomainID\<close>);
  \<open>GetSectionByName\<close> and \<open>GetAddressesByIpInSubnet\<close> decode a single wire record and
  return a single domain record.
\<close>

theorem search_operations_results:
  assumes "cl ''GET'' (''/l2domains/?filter_by=name&filter_value='' @ name) EmptyBody = Inr l2dtos"
    and "ca ''GET'' (''/addresses/search/'' @ ipaddr @ ''/'') EmptyBody = Inr adtos"
    and "cn ''GET'' (''/subnets/cidr/'' @ cidr @ ''/'') EmptyBody = Inr sdtos"
    and "cn ''GET'' (''/subnets/cidr/'' @ cidr @ ''/?filter_by=sectionId&filter_value=''
                       @ itoa section_id) EmptyBody = Inr sdtos'"
    and "cv ''GET'' (''/vlans/search/'' @ itoa number @ ''/'') EmptyBody = Inr vdtos"
    and "cv ''GET'' (''/vlans/search/'' @ itoa number @ ''/?filter_by=domainId&filter_value=''
                       @ itoa domain_id) EmptyBody = Inr vdtos'"
    and "cs ''GET'' (''/sections/'' @ name @ ''/'') EmptyBody = Inr sectionDTO"
    and "ci ''GET'' (''/addresses/'' @ ipaddr @ ''/'' @ itoa subnetID) EmptyBody = Inr addressDTO"
  shows "go_range (fst (fst (GetL2DomainByName cl name calls)))
           = map (L2Domain_FromDTO zero_L2Domain) (go_range l2dtos)
       \<and> go_range (fst (fst (GetAddressesByIP ca ipaddr calls)))
           = map (Address_FromDTO zero_Address) (go_range adtos)
       \<and> go_range (fst (fst (GetSubnetsByCIDR cn cidr calls)))
           = map (Subnet_FromDTO zero_Subnet) (go_range sdtos)
       \<and> go_range (fst (fst (GetSubnetsByCIDRAndSection cn cidr section_id calls)))
           = map (Subnet_FromDTO zero_Subnet) (go_range sdtos')
       \<and> go_range (fst (fst (GetVLANsByNumber cv number calls)))
           = map (VLAN_FromDTO zero_VLAN) (go_range vdtos)
       \<and> go_range (fst (fst (GetVLANsByNumberAndDomainID cv number domain_id calls)))
           = map (VLAN_FromDTO zero_VLAN) (go_range vdtos')
       \<and> fst (fst (GetSectionByName cs name calls)) = Section_FromDTO zero_Section sectionDTO
       \<and> fst (fst (GetAddressesByIpInSubnet ci ipaddr subnetID calls))
           = Address_FromDTO zero_Address addressDTO"
proof -
  have 1: "go_range (fst (fst (GetL2DomainByName cl name calls)))
           = map (L2Domain_FromDTO zero_L2Domain) (go_range l2dtos)"
    using assms(1) by (simp add: GetL2DomainByName_def SendRequest_def go_range_convert_loop)
  have 2: "go_range (fst (fst (GetAddressesByIP ca ipaddr calls)))
           = map (Address_FromDTO zero_Address) (go_range adtos)"
    using assms(2) by (simp add: GetAddressesByIP_def SendRequest_def go_range_convert_loop)
  have 3: "go_range (fst (fst (GetSubnetsByCIDR cn cidr calls)))
           = map (Subnet_FromDTO zero_Subnet) (go_range sdtos)"
    using assms(3) by (simp add: GetSubnetsByCIDR_def SendRequest_def go_range_convert_loop)
  have 4: "go_range (fst (fst (GetSubnetsByCIDRAndSection cn cidr section_id calls)))
           = map (Subnet_FromDTO zero_Subnet) (go_range sdtos')"
    using assms(4)
    by (simp add: GetSubnetsByCIDRAndSection_def SendRequest_def go_range_convert_loop)
  have 5: "go_range (fst (fst (GetVLANsByNumber cv number calls)))
           = map (VLAN_FromDTO zero_VLAN) (go_range vdtos)"
    using assms(5) by (simp add: GetVLANsByNumber_def SendRequest_def go_range_convert_loop)
  have 6: "go_range (fst (fst (GetVLANsByNumberAndDomainID cv number domain_id calls)))
           = map (VLAN_FromDTO zero_VLAN) (go_range vdtos')"
    using assms(6)
    by (simp add: GetVLANsByNumberAndDomainID_def SendRequest_def go_range_convert_loop)
  have 7: "fst (fst (GetSectionByName cs name calls)) = Section_FromDTO zero_Section sectionDTO"
    using assms(7) by (simp add: GetSectionByName_def SendRequest_def)
  have 8: "fst (fst (GetAddressesByIpInSubnet ci ipaddr subnetID calls))
           = Address_FromDTO zero_Address addressDTO"
    using assms(8) by (simp add: GetAddressesByIpInSubnet_def SendRequest_def)
  from 1 2 3 4 5 6 7 8 show ?thesis by blast
qed

theorem search_operations_results_witness:
  "go_range (fst (fst (GetL2DomainByName
      (\<lambda>method uri input.
          Inr (Some [zero_L2DomainDTO\<lparr>L2DomainDTO.ID := JSONIntString 1\<rparr>,
                     zero_L2DomainDTO\<lparr>L2DomainDTO.ID := JSONIntString 2\<rparr>]))
      ''default'' [])))
     = [zero_L2Domain\<lparr>L2Domain.ID := 1\<rparr>, zero_L2Domain\<lparr>L2Domain.ID := 2\<rparr>]
   \<and> go_range (fst (fst (GetAddressesByIP
        (\<lambda>method uri input. Inr (Some [zero_AddressDTO\<lparr>AddressDTO.ID := JSONIntString 9\<rparr>]))
        ''10.0.0.1'' [])))
     = [zero_Address\<lparr>Address.ID := 9\<rparr>]
   \<and> go_range (fst (fst (GetSubnetsByCIDR
        (\<lambda>method uri input. Inr (Some [zero_SubnetDTO\<lparr>SubnetDTO.Mask := JSONIntString 24\<rparr>]))
        ''10.0.0.0/24'' [])))
     = [zero_Subnet\<lparr>Subnet.Mask := JSONIntString 24\<rparr>]
   \<and> go_range (fst (fst (GetSubnetsByCIDRAndSection
        (\<lambda>method uri input. Inr (Some [zero_SubnetDTO\<lparr>SubnetDTO.Mask := JSONIntString 24\<rparr>]))
        ''10.0.0.0/24'' 2 [])))
     = [zero_Subnet\<lparr>Subnet.Mask := JSONIntString 24\<rparr>]
   \<and> go_range (fst (fst (GetVLANsByNumber
        (\<lambda>method uri input. Inr (Some [zero_VLANDTO\<lparr>VLANDTO.Number := JSONIntString 100\<rparr>]))
        100 [])))
     = [zero_VLAN\<lparr>VLAN.Number := 100\<rparr>]
   \<and> go_range (fst (fst (GetVLANsByNumberAndDomainID
        (\<lambda>method uri input. Inr (Some [zero_VLANDTO\<lparr>VLANDTO.Number := JSONIntString 100\<rparr>]))
        100 1 [])))
     = [zero_VLAN\<lparr>VLAN.Number := 100\<rparr>]
   \<and> fst (fst (GetSectionByName
        (\<lambda>method uri input. Inr (zero_SectionDTO\<lparr>SectionDTO.ID := JSONIntString 3\<rparr>))
        ''default'' []))
     = zero_Section\<lparr>Section.ID := 3\<rparr>
   \<and> fst (fst (GetAddressesByIpInSubnet
        (\<lambda>method uri input. Inr (zero_AddressDTO\<lparr>AddressDTO.ID := JSONIntString 9\<rparr>))
        ''10.0.0.1'' 4 []))
     = zero_Address\<lparr>Address.ID := 9\<rparr>"
  using search_operations_results
    [where cl = "\<lambda>method uri input.
                   Inr (Some [zero_L2DomainDTO\<lparr>L2DomainDTO.ID := JSONIntString 1\<rparr>,
                              zero_L2DomainDTO\<lparr>L2DomainDTO.ID := JSONIntString 2\<rparr>])"
       and name = "''default''"
       and ca = "\<lambda>method uri input. Inr (Some [zero_AddressDTO\<lparr>AddressDTO.ID := JSONIntString 9\<rparr>])"
       and ipaddr = "''10.0.0.1''"
       and cn = "\<lambda>method uri input. Inr (Some [zero_SubnetDTO\<lparr>SubnetDTO.Mask := JSONIntString 24\<rparr>])"
       and cidr = "''10.0.0.0/24''" and section_id = 2
       and cv = "\<lambda>method uri input. Inr (Some [zero_VLANDTO\<lparr>VLANDTO.Number := JSONIntString 100\<rparr>])"
       and number = 100 and domain_id = 1
       and cs = "\<lambda>method uri input. Inr (zero_SectionDTO\<lparr>SectionDTO.ID := JSONIntString 3\<rparr>)"
       and ci = "\<lambda>method uri input. Inr (zero_AddressDTO\<lparr>AddressDTO.ID := JSONIntString 9\<rparr>)"
       and subnetID = 4 and calls = "[]"]
  by (simp add: go_range_def L2Domain_FromDTO_def Address_FromDTO_def Subnet_FromDTO_def
        VLAN_FromDTO_def Section_FromDTO_def zero_L2Domain_def zero_L2DomainDTO_def
        zero_Address_def zero_AddressDTO_def zero_Subnet_def zero_SubnetDTO_def zero_VLAN_def
        zero_VLANDTO_def zero_Section_def zero_SectionDTO_def)

text \<open>
  C4 as stated fails: \<open>GetSectionByName\<close> is a get-by-name operation whose dispatcher
  decodes one \<open>SectionDTO\<close> and whose result is one \<open>Section\<close>, not a sequence.
\<close>

theorem GetSectionByName_returns_one_record:
  "GetSectionByName
      (\<lambda>method uri input.
          Inr (zero_SectionDTO\<lparr>SectionDTO.ID := JSONIntString 3, SectionDTO.Name := ''Customers''\<rparr>))
      ''Customers'' []
     = ((zero_Section\<lparr>Section.ID := 3, Section.Name := ''Customers''\<rparr>, None),
        [SendRequestCall ''GET'' ''/sections/Customers/'' EmptyBody])"
  by (simp add: GetSectionByName_def SendRequest_def Section_FromDTO_def zero_Section_def
        zero_SectionDTO_def)

text \<open>
  C5, as the code has it. For every list operation, if the server returns an empty JSON
  array, the operation returns a sequence of length zero and no error; for the
  operations that convert wire records in a loop (\<open>ListSections\<close>, \<open>GetSubnetsInSection\<close>,
  \<open>GetAddressesInSubnet\<close>, \<open>GetVlansInl2Domain\<close>) that sequence is the nil slice.
\<close>

theorem list_operations_empty_array:
  assumes "cs ''GET'' ''/sections/'' EmptyBody = Inr (Some [])"
    and "cn ''GET'' (''/sections/'' @ itoa id' @ ''/subnets/'') EmptyBody = Inr (Some [])"
    and "ca ''GET'' (''/subnets/'' @ itoa id' @ ''/addresses/'') EmptyBody = Inr (Some [])"
    and "cv ''GET'' (''/l2domains/'' @ itoa id' @ ''/vlans/'') EmptyBody = Inr (Some [])"
    and "cl ''GET'' ''/l2domains/'' EmptyBody = Inr (Some [])"
  shows "fst (ListSections cs calls) = (None, None)
       \<and> go_len (fst (fst (ListSections cs calls))) = 0
       \<and> fst (GetSubnetsInSection cn id' calls) = (None, None)
       \<and> go_len (fst (fst (GetSubnetsInSection cn id' calls))) = 0
       \<and> fst (GetAddressesInSubnet ca id' calls) = (None, None)
       \<and> go_len (fst (fst (GetAddressesInSubnet ca id' calls))) = 0
       \<and> fst (GetVlansInl2Domain cv id' calls) = (None, None)
       \<and> go_len (fst (fst (GetVlansInl2Domain cv id' calls))) = 0
       \<and> snd (fst (ListL2Domains cl calls)) = None
       \<and> go_len (fst (fst (ListL2Domains cl calls))) = 0"
proof -
  have 1: "fst (ListSections cs calls) = (None, None)"
    using assms(1) by (simp add: ListSections_def SendRequest_def go_range_def)
  have 2: "fst (GetSubnetsInSection cn id' calls) = (None, None)"
    using assms(2) by (simp add: GetSubnetsInSection_def SendRequest_def go_range_def)
  have 3: "fst (GetAddressesInSubnet ca id' calls) = (None, None)"
    using assms(3) by (simp add: GetAddressesInSubnet_def SendRequest_def go_range_def)
  have 4: "fst (GetVlansInl2Domain cv id' calls) = (None, None)"
    using assms(4) by (simp add: GetVlansInl2Domain_def SendRequest_def go_range_def)
  have 5: "fst (ListL2Domains cl calls) = (Some [], None)"
    using assms(5) by (simp add: ListL2Domains_def SendRequest_def)
  from 1 2 3 4 5 show ?thesis by (simp add: go_len_def go_range_def)
qed

theorem list_operations_empty_array_witness:
  "fst (ListSections (\<lambda>method uri input. Inr (Some [])) []) = (None, None)
   \<and> fst (GetSubnetsInSection (\<lambda>method uri input. Inr (Some [])) 1 []) = (None, None)
   \<and> fst (GetAddressesInSubnet (\<lambda>method uri input. Inr (Some [])) 1 []) = (None, None)
   \<and> fst (GetVlansInl2Domain (\<lambda>method uri input. Inr (Some [])) 1 []) = (None, None)
   \<and> snd (fst (ListL2Domains (\<lambda>method uri input. Inr (Some [])) [])) = None
   \<and> go_len (fst (fst (ListL2Domains (\<lambda>method uri input. Inr (Some [])) []))) = 0
   \<and> go_len (None :: Section slice) = 0"
  using list_operations_empty_array
    [where cs = "\<lambda>method uri input. Inr (Some [])" and cn = "\<lambda>method uri input. Inr (Some [])"
       and ca = "\<lambda>method uri input. Inr (Some [])" and cv = "\<lambda>method uri input. Inr (Some [])"
       and cl = "\<lambda>method uri input. Inr (Some [])" and id' = 1 and calls = "[]"]
  by (simp add: go_len_def go_range_def)

text \<open>
  C5 as stated fails: when the dispatcher decodes the empty array, \<open>ListSections\<close> and
  \<open>GetAddressesInSubnet\<close> return the nil slice, since \<open>append\<close> is never reached.
\<close>

theorem ListSections_empty_array_returns_nil:
  "fst (fst (ListSections (\<lambda>method uri input. Inr (Some [])) [])) = None
   \<and> fst (fst (GetAddressesInSubnet (\<lambda>method uri input. Inr (Some [])) 1 [])) = None"
  by (simp add: ListSections_def GetAddressesInSubnet_def SendRequest_def go_range_def)

text \<open>
  C7 fails on \<open>ListL2Domains\<close>: what the dispatcher decoded is returned as it is, a slice
  of \<open>L2Domain\<close> records; no \<open>L2DomainDTO\<close> is decoded and \<open>L2Domain_FromDTO\<close> is not applied.
\<close>

theorem ListL2Domains_decodes_domain_records:
  "ListL2Domains
      (\<lambda>method uri input.
          Inr (Some [\<lparr>L2Domain.ID = 3, L2Domain.Name = ''core'', L2Domain.Description = '''',
                      L2Domain.Sections = ''1;2''\<rparr>]))
      []
     = ((Some [\<lparr>L2Domain.ID = 3, L2Domain.Name = ''core'', L2Domain.Description = '''',
                 L2Domain.Sections = ''1;2''\<rparr>], None),
        [SendRequestCall ''GET'' ''/l2domains/'' EmptyBody])"
  by (simp add: ListL2Domains_def SendRequest_def)

subsection \<open>Deleting a section\<close>

text \<open>
  C8. For every id, \<open>DeleteSection\<close> issues exactly one call, a \<open>DELETE\<close> to the path of
  the section itself, whatever the remote side answers; nothing is asked about the
  subnets or addresses of the section.
\<close>

theorem DeleteSection_single_call:
  "snd (DeleteSection c id' calls) =
     calls @ [SendRequestCall ''DELETE'' (''/sections/'' @ itoa id' @ ''/'') EmptyBody]"
  by (simp add: DeleteSection_def SendRequest_def split: sum.split prod.split)

end
